theory Spec2Isabelle
  imports Complex_Main "HOL-Library.Sublist"
begin

section \<open>Text\<close>

text \<open>
  A Python \<^verbatim>\<open>str\<close> is a sequence of Unicode code points, and so is a text column of
  the store: a text is the list of its code points, and \<^verbatim>\<open>len\<close> is its length. The
  literals of the program are ASCII and are written with \<open>ascii\<close>.
\<close>

type_synonym unicode = "nat list"

definition ascii :: "string \<Rightarrow> unicode" where
  "ascii s = map of_char s"

section \<open>The relational store (database.py)\<close>

text \<open>
  A row of the \<^verbatim>\<open>users\<close> table. The columns \<^verbatim>\<open>created_at\<close> and \<^verbatim>\<open>updated_at\<close>
  are filled by the store's clock and are read by no query of the model layer; they are
  left out.
\<close>

record user =
  user_id :: int
  name :: unicode
  age :: int
  department :: unicode
  bio :: unicode
  photo_id :: unicode

text \<open>
  The tables the matching engine reads and writes, each a list of rows in insertion order.
  \<^verbatim>\<open>likes\<close>, \<^verbatim>\<open>matches\<close> and \<^verbatim>\<open>blocks\<close> hold pairs of user ids; their primary key is
  the whole pair. Foreign keys are declared in the schema but the connection never
  switches their enforcement on, so a pair may name an id without a profile.
\<close>

record db =
  users :: "user list"
  likes :: "(int \<times> int) list"
  matches :: "(int \<times> int) list"
  blocks :: "(int \<times> int) list"

text \<open>\<^verbatim>\<open>INSERT OR IGNORE\<close> into a table whose primary key is the whole row.\<close>

definition insert_or_ignore :: "'a \<Rightarrow> 'a list \<Rightarrow> 'a list" where
  "insert_or_ignore r rows = (if r \<in> set rows then rows else rows @ [r])"

text \<open>
  \<^verbatim>\<open>ORDER BY RANDOM() LIMIT 1\<close> followed by \<^verbatim>\<open>fetchone()\<close>: no row when the
  selection is empty, otherwise the row the random order puts first. The random choice
  is the argument \<open>rnd\<close>.
\<close>

definition random_row :: "nat \<Rightarrow> 'a list \<Rightarrow> 'a option" where
  "random_row rnd rows = (if rows = [] then None else Some (rows ! (rnd mod length rows)))"

section \<open>The user model (models/user_model.py)\<close>

text \<open>
  Every function of the module wraps its statement in \<^verbatim>\<open>try ... except Exception\<close>.
  Whether the store raises during a call is decided outside the program (a locked file, a
  timeout, a lost connection), so it is the first argument \<open>raises\<close> of each function.
  A transaction that raises is rolled back: the tables are returned unchanged.
\<close>

definition save_user ::
  "bool \<Rightarrow> db \<Rightarrow> int \<Rightarrow> unicode \<Rightarrow> int \<Rightarrow> unicode \<Rightarrow> unicode \<Rightarrow> unicode \<Rightarrow> bool \<times> db" where
  "save_user raises d uid nm ag dept bi photo =
     (if raises then (False, d)
      else (True, d\<lparr>users := filter (\<lambda>u. user_id u \<noteq> uid) (users d) @
              [\<lparr>user_id = uid, name = nm, age = ag, department = dept, bio = bi,
                photo_id = photo\<rparr>]\<rparr>))"

definition get_random_user :: "bool \<Rightarrow> db \<Rightarrow> nat \<Rightarrow> int \<Rightarrow> bool \<Rightarrow> user option" where
  "get_random_user raises d rnd exclude_id exclude_blocked =
     (if raises then None
      else if exclude_blocked then
        random_row rnd
          (filter (\<lambda>u. user_id u \<noteq> exclude_id \<and> (exclude_id, user_id u) \<notin> set (blocks d))
             (users d))
      else random_row rnd (filter (\<lambda>u. user_id u \<noteq> exclude_id) (users d)))"

definition add_like :: "bool \<Rightarrow> db \<Rightarrow> int \<Rightarrow> int \<Rightarrow> bool \<times> db" where
  "add_like raises d liker_id liked_id =
     (if raises then (False, d)
      else (True, d\<lparr>likes := insert_or_ignore (liker_id, liked_id) (likes d)\<rparr>))"

definition check_match :: "bool \<Rightarrow> db \<Rightarrow> int \<Rightarrow> int \<Rightarrow> bool" where
  "check_match raises d user1_id user2_id =
     (if raises then False else (user2_id, user1_id) \<in> set (likes d))"

definition get_user_matches :: "bool \<Rightarrow> db \<Rightarrow> int \<Rightarrow> user list" where
  "get_user_matches raises d uid =
     (if raises then []
      else remdups
        (filter (\<lambda>u. (uid, user_id u) \<in> set (likes d) \<and> (user_id u, uid) \<in> set (likes d) \<and>
                      user_id u \<noteq> uid)
           (users d)))"

definition save_match :: "bool \<Rightarrow> db \<Rightarrow> int \<Rightarrow> int \<Rightarrow> bool \<times> db" where
  "save_match raises d user1_id user2_id =
     (if raises then (False, d)
      else (True, d\<lparr>matches :=
              insert_or_ignore (min user1_id user2_id, max user1_id user2_id) (matches d)\<rparr>))"

definition get_users_who_liked_me :: "bool \<Rightarrow> db \<Rightarrow> int \<Rightarrow> user list" where
  "get_users_who_liked_me raises d uid =
     (if raises then []
      else remdups
        [u. u \<leftarrow> users d, l \<leftarrow> likes d,
            fst l = user_id u \<and> snd l = uid \<and> (uid, user_id u) \<notin> set (likes d) \<and>
            user_id u \<noteq> uid])"

definition block_user :: "bool \<Rightarrow> db \<Rightarrow> int \<Rightarrow> int \<Rightarrow> bool \<times> db" where
  "block_user raises d blocker_id blocked_id =
     (if raises then (False, d)
      else (True, d\<lparr>blocks := insert_or_ignore (blocker_id, blocked_id) (blocks d)\<rparr>))"

definition is_blocked :: "bool \<Rightarrow> db \<Rightarrow> int \<Rightarrow> int \<Rightarrow> bool" where
  "is_blocked raises d blocker_id blocked_id =
     (if raises then False else (blocker_id, blocked_id) \<in> set (blocks d))"

text \<open>
  The \<^verbatim>\<open>LIKE\<close> operator of the store, as \<open>get_users_with_filters\<close> uses it (no
  \<^verbatim>\<open>ESCAPE\<close>): in the pattern the percent sign (code point 37) stands for any run of
  characters, the underscore (code point 95) for exactly one character, and every other
  character for itself, upper and lower case ASCII letters being the same.
\<close>

definition ascii_lower :: "nat \<Rightarrow> nat" where
  "ascii_lower c = (if 65 \<le> c \<and> c \<le> 90 then c + 32 else c)"

fun sql_like :: "unicode \<Rightarrow> unicode \<Rightarrow> bool" where
  "sql_like [] s = (s = [])"
| "sql_like (p # ps) [] = (p = 37 \<and> sql_like ps [])"
| "sql_like (p # ps) (c # cs) =
     (if p = 37 then sql_like ps (c # cs) \<or> sql_like (p # ps) cs
      else (p = 95 \<or> ascii_lower p = ascii_lower c) \<and> sql_like ps cs)"

text \<open>
  The three optional filters are \<^verbatim>\<open>None\<close> or a value. A minimum or maximum age is
  applied whenever it is not \<^verbatim>\<open>None\<close>; a department is applied when it is truthy, that
  is neither \<^verbatim>\<open>None\<close> nor the empty string, and is put between two percent signs as
  it is. The query names the \<^verbatim>\<open>users\<close> table only.
\<close>

definition get_users_with_filters ::
  "bool \<Rightarrow> db \<Rightarrow> nat \<Rightarrow> int \<Rightarrow> int option \<Rightarrow> int option \<Rightarrow> unicode option \<Rightarrow> user option" where
  "get_users_with_filters raises d rnd exclude_id min_age max_age dept =
     (if raises then None
      else random_row rnd
        (filter
           (\<lambda>u. user_id u \<noteq> exclude_id \<and>
                (case min_age of None \<Rightarrow> True | Some m \<Rightarrow> age u \<ge> m) \<and>
                (case max_age of None \<Rightarrow> True | Some m \<Rightarrow> age u \<le> m) \<and>
                (case dept of None \<Rightarrow> True
                 | Some dp \<Rightarrow> dp = [] \<or> sql_like (ascii ''%'' @ dp @ ascii ''%'') (department u)))
           (users d)))"

section \<open>The like button (handlers/browse_handler.py)\<close>

text \<open>
  The \<^verbatim>\<open>like_<id>\<close> branch of \<open>handle_callback\<close>: the like is stored, the reverse
  edge is looked up, and a match is saved when it is there. The three answers the user can
  get are the three values of \<open>like_reply\<close>. The result of \<open>save_match\<close> is ignored by
  the handler. The three calls reach the store one after the other; \<open>r_like\<close>,
  \<open>r_check\<close> and \<open>r_save\<close> say which of them raise.
\<close>

datatype like_reply = Its_a_match | Liked | Failed_to_save_like

definition handle_callback_like ::
  "bool \<Rightarrow> bool \<Rightarrow> bool \<Rightarrow> db \<Rightarrow> int \<Rightarrow> int \<Rightarrow> like_reply \<times> db" where
  "handle_callback_like r_like r_check r_save d uid liked_id =
     (case add_like r_like d uid liked_id of
        (True, d1) \<Rightarrow>
          if check_match r_check d1 uid liked_id
          then (Its_a_match, snd (save_match r_save d1 uid liked_id))
          else (Liked, d1)
      | (False, d1) \<Rightarrow> (Failed_to_save_like, d1))"

section \<open>The rate limiter (utils/rate_limiter.py)\<close>

text \<open>
  The limiter keeps two dictionaries keyed by user id: the times of the recent requests
  (\<^verbatim>\<open>_requests\<close>, a \<^verbatim>\<open>defaultdict(list)\<close>) and the time each ban ends (\<^verbatim>\<open>_banned\<close>).
  Times are the seconds of \<^verbatim>\<open>time()\<close>, taken here as real numbers; the three settings
  are Python integers.
\<close>

record rate_limiter =
  requests :: "int \<rightharpoonup> real list"
  banned :: "int \<rightharpoonup> real"

definition new_rate_limiter :: rate_limiter where
  "new_rate_limiter = \<lparr>requests = Map.empty, banned = Map.empty\<rparr>"

text \<open>Reading \<^verbatim>\<open>_requests[user_id]\<close>: a missing key reads as the empty list.\<close>

definition requests_of :: "rate_limiter \<Rightarrow> int \<Rightarrow> real list" where
  "requests_of rl uid = (case requests rl uid of None \<Rightarrow> [] | Some ts \<Rightarrow> ts)"

text \<open>\<^verbatim>\<open>int(x)\<close> of a float: the fraction is cut off, towards zero.\<close>

definition int_of_float :: "real \<Rightarrow> int" where
  "int_of_float x = (if 0 \<le> x then \<lfloor>x\<rfloor> else \<lceil>x\<rceil>)"

text \<open>
  The second component of the result of \<open>is_allowed\<close>: the empty string of an allowed
  call, "Rate limit exceeded. Try again in \<open>n\<close> seconds." or "Too many requests. Please
  wait \<open>n\<close> seconds.", each with its number.
\<close>

datatype reason = No_reason | Try_again_in int | Please_wait int

text \<open>
  \<open>is_allowed\<close> after its ban check: old requests are dropped, the limit is tested, and
  the request is recorded when it passes.
\<close>

definition is_allowed_window ::
  "rate_limiter \<Rightarrow> real \<Rightarrow> int \<Rightarrow> int \<Rightarrow> int \<Rightarrow> int \<Rightarrow> (bool \<times> reason) \<times> rate_limiter" where
  "is_allowed_window rl now uid max_requests time_window ban_duration =
     (let cutoff = now - real_of_int time_window;
          recent = filter (\<lambda>req_time. req_time > cutoff) (requests_of rl uid);
          rl1 = rl\<lparr>requests := (requests rl)(uid \<mapsto> recent)\<rparr>
      in if int (length recent) \<ge> max_requests
         then ((False, Please_wait ban_duration),
               rl1\<lparr>banned := (banned rl1)(uid \<mapsto> now + real_of_int ban_duration)\<rparr>)
         else ((True, No_reason), rl1\<lparr>requests := (requests rl1)(uid \<mapsto> recent @ [now])\<rparr>))"

text \<open>The clock reading \<^verbatim>\<open>now = time()\<close> of the call is the argument \<open>now\<close>.\<close>

definition is_allowed ::
  "rate_limiter \<Rightarrow> real \<Rightarrow> int \<Rightarrow> int \<Rightarrow> int \<Rightarrow> int \<Rightarrow> (bool \<times> reason) \<times> rate_limiter" where
  "is_allowed rl now uid max_requests time_window ban_duration =
     (case banned rl uid of
        Some until \<Rightarrow>
          if now < until then ((False, Try_again_in (int_of_float (until - now))), rl)
          else is_allowed_window (rl\<lparr>banned := (banned rl)(uid := None)\<rparr>) now uid
                 max_requests time_window ban_duration
      | None \<Rightarrow> is_allowed_window rl now uid max_requests time_window ban_duration)"

text \<open>
  The limiter driven through a list of calls, each a user id and the clock reading of the
  call, with one configuration: the answers in order, and the limiter afterwards.
\<close>

fun is_allowed_calls ::
  "rate_limiter \<Rightarrow> int \<Rightarrow> int \<Rightarrow> int \<Rightarrow> (int \<times> real) list \<Rightarrow> (bool \<times> reason) list \<times> rate_limiter" where
  "is_allowed_calls rl max_requests time_window ban_duration [] = ([], rl)"
| "is_allowed_calls rl max_requests time_window ban_duration ((uid, now) # calls) =
     (case is_allowed rl now uid max_requests time_window ban_duration of
        (answer, rl1) \<Rightarrow>
          (case is_allowed_calls rl1 max_requests time_window ban_duration calls of
             (answers, rl2) \<Rightarrow> (answer # answers, rl2)))"

section \<open>Input validation (utils/validators.py)\<close>

text \<open>
  \<^verbatim>\<open>str.strip()\<close> removes from both ends the characters that \<^verbatim>\<open>str.isspace\<close> accepts:
  the white space of ASCII with the four separators 28 to 31, and the Unicode spaces.
\<close>

definition is_space :: "nat \<Rightarrow> bool" where
  "is_space c =
     ((9 \<le> c \<and> c \<le> 13) \<or> (28 \<le> c \<and> c \<le> 32) \<or> c = 0x85 \<or> c = 0xA0 \<or> c = 0x1680 \<or>
      (0x2000 \<le> c \<and> c \<le> 0x200A) \<or> c = 0x2028 \<or> c = 0x2029 \<or> c = 0x202F \<or> c = 0x205F \<or>
      c = 0x3000)"

definition py_strip :: "unicode \<Rightarrow> unicode" where
  "py_strip s = rev (dropWhile is_space (rev (dropWhile is_space s)))"

text \<open>
  \<^verbatim>\<open>int(s)\<close> of a text, base ten. The interpreter first rewrites the text to ASCII: a
  character below 127 stays, any other white space becomes a blank, and any other character
  must be a decimal digit of some script, which becomes the ASCII digit of its value. The
  value of such a digit comes from the Unicode tables of the interpreter, which are no part
  of the program: they are the argument \<open>decimal\<close>. The ASCII text is then read: blanks
  and the control characters 9 to 13 are skipped at both ends, a sign may come first, and
  the rest must be digits, between which single underscores may stand. Everything else
  raises \<^verbatim>\<open>ValueError\<close>, which is \<open>None\<close> here.
\<close>

fun to_ascii_decimal :: "(nat \<Rightarrow> nat option) \<Rightarrow> unicode \<Rightarrow> unicode option" where
  "to_ascii_decimal decimal [] = Some []"
| "to_ascii_decimal decimal (ch # s) =
     (if ch < 127 then map_option ((#) ch) (to_ascii_decimal decimal s)
      else if is_space ch then map_option ((#) 32) (to_ascii_decimal decimal s)
      else (case decimal ch of
              None \<Rightarrow> None
            | Some v \<Rightarrow> map_option ((#) (48 + v)) (to_ascii_decimal decimal s)))"

definition c_space :: "nat \<Rightarrow> bool" where
  "c_space c = ((9 \<le> c \<and> c \<le> 13) \<or> c = 32)"

definition is_digit :: "nat \<Rightarrow> bool" where
  "is_digit c = (48 \<le> c \<and> c \<le> 57)"

definition digit_value :: "nat \<Rightarrow> nat" where
  "digit_value c = c - 48"

fun digits_value :: "nat \<Rightarrow> unicode \<Rightarrow> nat option" where
  "digits_value acc [] = Some acc"
| "digits_value acc [c] = (if is_digit c then Some (10 * acc + digit_value c) else None)"
| "digits_value acc (c # d # cs) =
     (if is_digit c then digits_value (10 * acc + digit_value c) (d # cs)
      else if c = 95 \<and> is_digit d then digits_value (10 * acc + digit_value d) cs
      else None)"

definition int_literal :: "unicode \<Rightarrow> nat option" where
  "int_literal s =
     (case s of [] \<Rightarrow> None
      | c # cs \<Rightarrow> if is_digit c then digits_value (digit_value c) cs else None)"

text \<open>The minus sign is the code point 45 and the plus sign 43.\<close>

definition py_int :: "(nat \<Rightarrow> nat option) \<Rightarrow> unicode \<Rightarrow> int option" where
  "py_int decimal s =
     (case to_ascii_decimal decimal s of
        None \<Rightarrow> None
      | Some t \<Rightarrow>
          (case rev (dropWhile c_space (rev (dropWhile c_space t))) of
             [] \<Rightarrow> None
           | c # cs \<Rightarrow>
               if c = 45 then map_option (\<lambda>n. - int n) (int_literal cs)
               else if c = 43 then map_option int (int_literal cs)
               else map_option int (int_literal (c # cs))))"

text \<open>\<^verbatim>\<open>str(n)\<close> of an integer: its decimal digits, after a minus sign when negative.\<close>

fun str_nat :: "nat \<Rightarrow> unicode" where
  "str_nat n = (if n < 10 then [48 + n] else str_nat (n div 10) @ [48 + n mod 10])"

definition py_str :: "int \<Rightarrow> unicode" where
  "py_str i = (if i < 0 then 45 # str_nat (nat (- i)) else str_nat (nat i))"

definition validate_age :: "(nat \<Rightarrow> nat option) \<Rightarrow> unicode \<Rightarrow> bool \<times> int option" where
  "validate_age decimal age_str =
     (case py_int decimal (py_strip age_str) of
        None \<Rightarrow> (False, None)
      | Some a \<Rightarrow> if 16 \<le> a \<and> a \<le> 100 then (True, Some a) else (False, None))"

definition validate_text_length :: "unicode \<Rightarrow> int \<Rightarrow> int \<Rightarrow> bool" where
  "validate_text_length txt min_length max_length =
     (if txt = [] then False
      else min_length \<le> int (length (py_strip txt)) \<and> int (length (py_strip txt)) \<le> max_length)"

definition validate_name :: "unicode \<Rightarrow> bool" where
  "validate_name nm = validate_text_length nm 2 50"

definition validate_bio :: "unicode \<Rightarrow> bool" where
  "validate_bio bi = validate_text_length bi 10 500"

definition validate_department :: "unicode \<Rightarrow> bool" where
  "validate_department dept = validate_text_length dept 2 100"

section \<open>Registration (handlers/start_handler.py)\<close>

text \<open>
  The keys of \<^verbatim>\<open>context.user_data\<close> that the registration reads and writes. The step
  is one of the step names of the program and reads as the empty string when absent. The
  keys of other handlers (the preferences, the profile being reported) play no part in the
  registration and are left out.
\<close>

record user_data =
  step :: string
  ud_name :: "unicode option"
  ud_age :: "unicode option"
  ud_department :: "unicode option"
  ud_bio :: "unicode option"

definition cleared :: user_data where
  "cleared = \<lparr>step = [], ud_name = None, ud_age = None, ud_department = None, ud_bio = None\<rparr>"

text \<open>
  What the handler reads of a message: its text, and the file id of the last photo size when
  it carries a photo.
\<close>

record message =
  msg_text :: "unicode option"
  msg_photo :: "unicode option"

text \<open>Python truthiness of an optional text: neither \<^verbatim>\<open>None\<close> nor empty.\<close>

definition truthy :: "unicode option \<Rightarrow> bool" where
  "truthy x = (case x of None \<Rightarrow> False | Some s \<Rightarrow> s \<noteq> [])"

text \<open>The text held by a value already tested truthy.\<close>

definition text_of :: "unicode option \<Rightarrow> unicode" where
  "text_of x = (case x of None \<Rightarrow> [] | Some s \<Rightarrow> s)"

datatype registration_reply =
  No_reply | Data_incomplete | Invalid_age_start_again | Profile_created | Failed_to_save_profile
  | Invalid_name | Enter_age | Invalid_age | Enter_department | Invalid_department | Write_bio
  | Invalid_bio | Send_photo

text \<open>
  \<open>handle_registration\<close>, with the list of menu button labels of its first test as the
  argument \<open>menu_buttons\<close>. The result is the reply sent, the tables and the user data.
  \<open>validate_age\<close> never answers valid without an age; were it to, \<^verbatim>\<open>str(None)\<close> would
  be stored at the age step, and at the photo step the \<^verbatim>\<open>NOT NULL\<close> column would
  make \<open>save_user\<close> fail.
\<close>

definition handle_registration ::
  "(nat \<Rightarrow> nat option) \<Rightarrow> bool \<Rightarrow> unicode list \<Rightarrow> db \<Rightarrow> user_data \<Rightarrow> int \<Rightarrow> message \<Rightarrow>
     registration_reply \<times> db \<times> user_data" where
  "handle_registration decimal raises menu_buttons d ud uid msg =
     (if step ud = [] \<and> truthy (msg_text msg) \<and> text_of (msg_text msg) \<in> set menu_buttons
      then (No_reply, d, ud)
      else if step ud = ''photo'' \<and> msg_photo msg \<noteq> None then
        (if \<not> (truthy (ud_name ud) \<and> truthy (ud_age ud) \<and> truthy (ud_department ud) \<and>
                truthy (ud_bio ud))
         then (Data_incomplete, d, cleared)
         else
           (case validate_age decimal (text_of (ud_age ud)) of
              (False, _) \<Rightarrow> (Invalid_age_start_again, d, cleared)
            | (True, None) \<Rightarrow> (Failed_to_save_profile, d, ud)
            | (True, Some ag) \<Rightarrow>
                (case save_user raises d uid (text_of (ud_name ud)) ag
                        (text_of (ud_department ud)) (text_of (ud_bio ud))
                        (text_of (msg_photo msg)) of
                   (True, d1) \<Rightarrow> (Profile_created, d1, cleared)
                 | (False, d1) \<Rightarrow> (Failed_to_save_profile, d1, ud))))
      else if \<not> truthy (msg_text msg) then (No_reply, d, ud)
      else if step ud = ''name'' then
        (if \<not> validate_name (text_of (msg_text msg)) then (Invalid_name, d, ud)
         else (Enter_age, d,
               ud\<lparr>ud_name := Some (py_strip (text_of (msg_text msg))), step := ''age''\<rparr>))
      else if step ud = ''age'' then
        (case validate_age decimal (text_of (msg_text msg)) of
           (False, _) \<Rightarrow> (Invalid_age, d, ud)
         | (True, a) \<Rightarrow>
             (Enter_department, d,
              ud\<lparr>ud_age := Some (case a of None \<Rightarrow> ascii ''None'' | Some n \<Rightarrow> py_str n),
                 step := ''department''\<rparr>))
      else if step ud = ''department'' then
        (if \<not> validate_department (text_of (msg_text msg)) then (Invalid_department, d, ud)
         else (Write_bio, d,
               ud\<lparr>ud_department := Some (py_strip (text_of (msg_text msg))), step := ''bio''\<rparr>))
      else if step ud = ''bio'' then
        (if \<not> validate_bio (text_of (msg_text msg)) then (Invalid_bio, d, ud)
         else (Send_photo, d,
               ud\<lparr>ud_bio := Some (py_strip (text_of (msg_text msg))), step := ''photo''\<rparr>))
      else (No_reply, d, ud))"

text \<open>
  The stored bio, when there is one, went through \<open>validate_bio\<close>: the registration
  keeps this true of the user data from one message to the next.
\<close>

definition bio_checked :: "user_data \<Rightarrow> bool" where
  "bio_checked ud =
     (case ud_bio ud of None \<Rightarrow> True | Some bi \<Rightarrow> 10 \<le> length bi \<and> length bi \<le> 500)"

section \<open>The filters as the query applies them\<close>


section \<open>The filters as the specification words them\<close>


section \<open>Example tables\<close>

text \<open>Two registered profiles, and the tables the examples below start from.\<close>

definition profile1 :: user where
  "profile1 = \<lparr>user_id = 1, name = ascii ''Abel'', age = 22, department = ascii ''Engineering'',
               bio = ascii ''I like long walks'', photo_id = ascii ''p1''\<rparr>"

definition profile2 :: user where
  "profile2 = \<lparr>user_id = 2, name = ascii ''Beth'', age = 20,
               department = ascii ''Computer Science'', bio = ascii ''I like short walks'',
               photo_id = ascii ''p2''\<rparr>"

definition two_profiles :: db where
  "two_profiles = \<lparr>users = [profile1, profile2], likes = [], matches = [], blocks = []\<rparr>"

definition one_way_like :: db where
  "one_way_like = \<lparr>users = [profile1, profile2], likes = [(2, 1)], matches = [], blocks = []\<rparr>"



text \<open>
  The limiter of one user after four calls within four seconds, with three requests allowed
  per minute and a ban of five minutes.
\<close>

definition after_four_calls :: rate_limiter where
  "after_four_calls =
     snd (is_allowed_calls new_rate_limiter 3 60 300 [(7, 0), (7, 1), (7, 2), (7, 3)])"

text \<open>Empty tables, and the user data of a registration that waits for the photo.\<close>

definition no_rows :: db where
  "no_rows = \<lparr>users = [], likes = [], matches = [], blocks = []\<rparr>"

definition ready_for_photo :: user_data where
  "ready_for_photo =
     \<lparr>step = ''photo'', ud_name = Some (ascii ''Abel''), ud_age = Some (ascii ''22''),
      ud_department = Some (ascii ''Engineering''), ud_bio = Some (ascii ''I like long walks'')\<rparr>"

text \<open>
  A table of decimal digits that knows, beyond ASCII, the Arabic-Indic digits from U+0660
  to U+0669.
\<close>

definition arabic_indic :: "nat \<Rightarrow> nat option" where
  "arabic_indic c = (if 0x660 \<le> c \<and> c \<le> 0x669 then Some (c - 0x660) else None)"

text \<open>
  A text of 501 characters, 500 letters and a blank, and a text of ten characters, nine
  digits and a blank.
\<close>

definition padded_long_bio :: unicode where
  "padded_long_bio = replicate 500 97 @ ascii '' ''"

definition padded_short_bio :: unicode where
  "padded_short_bio = ascii ''123456789 ''"

section \<open>Idempotence of likes\<close>

lemma profile_ids: "user_id profile1 = 1" "user_id profile2 = 2" "age profile2 = 20"
  by (simp_all add: profile1_def profile2_def)

lemma insert_or_ignore_idem:
  "insert_or_ignore r (insert_or_ignore r rows) = insert_or_ignore r rows"
  by (simp add: insert_or_ignore_def)

lemma likes_handle_callback_like:
  "likes (snd (handle_callback_like r1 r2 r3 d a b)) = likes (snd (add_like r1 d a b))"
  by (simp add: handle_callback_like_def add_like_def save_match_def)

text \<open>
  C4. Liking twice is liking once. After a first \<open>add_like a b\<close> that was stored, a
  second one leaves the \<^verbatim>\<open>likes\<close> table with the same rows, hence the same
  cardinality, whether the second call reaches the store or raises; the same holds for the
  handler of the like button, which calls \<open>add_like\<close>.
\<close>

theorem add_like_idempotent:
  "likes (snd (add_like r (snd (add_like False d a b)) a b)) = likes (snd (add_like False d a b)) \<and>
   length (likes (snd (add_like r (snd (add_like False d a b)) a b))) =
     length (likes (snd (add_like False d a b))) \<and>
   likes (snd (handle_callback_like r r2 r3 (snd (handle_callback_like False r4 r5 d a b)) a b)) =
     likes (snd (handle_callback_like False r4 r5 d a b))"
  by (simp add: likes_handle_callback_like add_like_def insert_or_ignore_def)

section \<open>Matches and pending likes\<close>

lemma get_user_matches_iff:
  "u \<in> set (get_user_matches r d a) \<longleftrightarrow>
     \<not> r \<and> u \<in> set (users d) \<and> (a, user_id u) \<in> set (likes d) \<and>
     (user_id u, a) \<in> set (likes d) \<and> user_id u \<noteq> a"
  by (auto simp: get_user_matches_def)

lemma get_users_who_liked_me_iff:
  "u \<in> set (get_users_who_liked_me r d a) \<longleftrightarrow>
     \<not> r \<and> u \<in> set (users d) \<and> (user_id u, a) \<in> set (likes d) \<and>
     (a, user_id u) \<notin> set (likes d) \<and> user_id u \<noteq> a"
  by (force simp: get_users_who_liked_me_def)

text \<open>
  C5. The users who liked \<open>a\<close> without being liked back and the matches of \<open>a\<close> have no
  profile in common, and not even a user id in common, in every state of the tables and
  whether or not either query raises.
\<close>

theorem likers_matches_disjoint:
  "set (get_users_who_liked_me r1 d a) \<inter> set (get_user_matches r2 d a) = {} \<and>
   user_id ` set (get_users_who_liked_me r1 d a) \<inter> user_id ` set (get_user_matches r2 d a) = {}"
  by (auto simp: get_user_matches_iff get_users_who_liked_me_iff)

section \<open>Candidate selection\<close>

lemma random_row_Some: "random_row rnd rows = Some x \<Longrightarrow> x \<in> set rows"
  by (auto simp: random_row_def split: if_splits)


lemma get_random_user_excludes:
  "get_random_user r d rnd a True = Some u \<Longrightarrow>
     u \<in> set (users d) \<and> user_id u \<noteq> a \<and> (a, user_id u) \<notin> set (blocks d)"
  by (auto simp: get_random_user_def split: if_splits dest: random_row_Some)

lemma get_users_with_filters_not_self:
  "get_users_with_filters r d rnd a mn mx dp = Some u \<Longrightarrow> u \<in> set (users d) \<and> user_id u \<noteq> a"
  by (auto simp: get_users_with_filters_def split: if_splits dest: random_row_Some)

lemma block_user_recorded: "(a, b) \<in> set (blocks (snd (block_user False d a b)))"
  by (simp add: block_user_def insert_or_ignore_def)

text \<open>
  C1, where the code parts from the claim. Profile 2 is blocked by user 1 with
  \<open>block_user\<close>. The unfiltered selection for user 1 then finds nobody, but the selection
  with a minimum age of 18 returns the blocked profile 2, whatever the random choice:
  the filtered query never reads the \<^verbatim>\<open>blocks\<close> table.
\<close>

theorem filtered_selection_returns_blocked:
  "fst (block_user False two_profiles 1 2) \<and>
   is_blocked False (snd (block_user False two_profiles 1 2)) 1 2 \<and>
   (\<forall>rnd. get_random_user False (snd (block_user False two_profiles 1 2)) rnd 1 True = None) \<and>
   (\<forall>rnd. get_users_with_filters False (snd (block_user False two_profiles 1 2)) rnd 1
            (Some 18) None None = Some profile2)"
  by (simp add: block_user_def is_blocked_def get_random_user_def get_users_with_filters_def
      random_row_def insert_or_ignore_def two_profiles_def profile_ids)

section \<open>Mutual likes\<close>

lemma check_match_iff: "check_match r d a b \<longleftrightarrow> \<not> r \<and> (b, a) \<in> set (likes d)"
  by (simp add: check_match_def)

text \<open>
  C3, where the code parts from the claim. With the single edge Like(2 \<rightarrow> 1) in the
  table, \<open>check_match 1 2\<close> answers \<^verbatim>\<open>True\<close> although Like(1 \<rightarrow> 2) does not exist, and
  \<open>get_user_matches\<close>, which looks for both edges, lists no match for user 1.
\<close>

theorem check_match_one_direction:
  "check_match False one_way_like 1 2 \<and> (1, 2) \<notin> set (likes one_way_like) \<and>
   get_user_matches False one_way_like 1 = []"
  by (simp add: check_match_def get_user_matches_def one_way_like_def profile_ids)

lemma add_like_stored: "(a, b) \<in> set (likes (snd (add_like False d a b)))"
  by (simp add: add_like_def insert_or_ignore_def)

lemma add_like_keeps: "x \<in> set (likes d) \<Longrightarrow> x \<in> set (likes (snd (add_like r d a b)))"
  by (simp add: add_like_def insert_or_ignore_def)

lemma users_handle_callback_like: "users (snd (handle_callback_like r1 r2 r3 d a b)) = users d"
  by (simp add: handle_callback_like_def add_like_def save_match_def)

lemma handle_callback_like_reply:
  "fst (handle_callback_like False r2 r3 d a b) =
     (if check_match r2 (snd (add_like False d a b)) a b then Its_a_match else Liked)"
  by (simp add: handle_callback_like_def add_like_def)

text \<open>
  C2. Let \<open>pa\<close> and \<open>pb\<close> be the profiles of two different users \<open>a\<close> and \<open>b\<close>. When
  \<open>a\<close> presses like on \<open>b\<close> and then \<open>b\<close> presses like on \<open>a\<close>, both likes being stored
  and the lookup of the second call answering, the second call reports a match, and
  afterwards the matches of \<open>a\<close> contain \<open>pb\<close> and the matches of \<open>b\<close> contain \<open>pa\<close>.
  Whether the first call's lookup or either \<open>save_match\<close> raises makes no difference.
\<close>

theorem mutual_like_is_match:
  assumes "user_id pa \<noteq> user_id pb" and "pa \<in> set (users d)" and "pb \<in> set (users d)"
  shows "fst (handle_callback_like False False s2
                (snd (handle_callback_like False c1 s1 d (user_id pa) (user_id pb)))
                (user_id pb) (user_id pa)) = Its_a_match \<and>
         pb \<in> set (get_user_matches False
                (snd (handle_callback_like False False s2
                   (snd (handle_callback_like False c1 s1 d (user_id pa) (user_id pb)))
                   (user_id pb) (user_id pa))) (user_id pa)) \<and>
         pa \<in> set (get_user_matches False
                (snd (handle_callback_like False False s2
                   (snd (handle_callback_like False c1 s1 d (user_id pa) (user_id pb)))
                   (user_id pb) (user_id pa))) (user_id pb))"
proof -
  let ?d1 = "snd (handle_callback_like False c1 s1 d (user_id pa) (user_id pb))"
  let ?d2 = "snd (handle_callback_like False False s2 ?d1 (user_id pb) (user_id pa))"
  have l1: "(user_id pa, user_id pb) \<in> set (likes ?d1)"
    by (simp add: likes_handle_callback_like add_like_stored)
  then have "check_match False (snd (add_like False ?d1 (user_id pb) (user_id pa)))
      (user_id pb) (user_id pa)"
    unfolding check_match_iff by (simp add: add_like_keeps)
  then have reply:
    "fst (handle_callback_like False False s2 ?d1 (user_id pb) (user_id pa)) = Its_a_match"
    unfolding handle_callback_like_reply by simp
  have ab: "(user_id pa, user_id pb) \<in> set (likes ?d2)"
    using l1 by (simp add: likes_handle_callback_like add_like_keeps)
  have ba: "(user_id pb, user_id pa) \<in> set (likes ?d2)"
    by (simp add: likes_handle_callback_like add_like_stored)
  have us: "users ?d2 = users d"
    by (simp add: users_handle_callback_like)
  have "pb \<in> set (get_user_matches False ?d2 (user_id pa))"
    using assms ab ba us by (simp add: get_user_matches_iff)
  moreover have "pa \<in> set (get_user_matches False ?d2 (user_id pb))"
    using assms ab ba us by (simp add: get_user_matches_iff)
  ultimately show ?thesis using reply by simp
qed

theorem mutual_like_is_match_witness:
  "fst (handle_callback_like False False False
          (snd (handle_callback_like False False False two_profiles 1 2)) 2 1) = Its_a_match \<and>
   profile2 \<in> set (get_user_matches False
          (snd (handle_callback_like False False False
             (snd (handle_callback_like False False False two_profiles 1 2)) 2 1)) 1) \<and>
   profile1 \<in> set (get_user_matches False
          (snd (handle_callback_like False False False
             (snd (handle_callback_like False False False two_profiles 1 2)) 2 1)) 2)"
proof -
  have h1: "user_id profile1 \<noteq> user_id profile2"
    by (simp add: profile1_def profile2_def)
  have h2: "profile1 \<in> set (users two_profiles)" and h3: "profile2 \<in> set (users two_profiles)"
    by (simp_all add: two_profiles_def)
  have i1: "user_id profile1 = 1" and i2: "user_id profile2 = 2"
    by (simp_all add: profile1_def profile2_def)
  show ?thesis
    using mutual_like_is_match [OF h1 h2 h3, of False False False] by (simp add: i1 i2)
qed

section \<open>Filtered selection\<close>











section \<open>Storage failures\<close>

text \<open>
  C9, as stated, fails. The table holds Like(2 \<rightarrow> 1); user 1 presses like on profile 2 and
  the like is stored, but the lookup of the reverse edge raises. \<open>check_match\<close> answers
  \<^verbatim>\<open>False\<close>, exactly what it answers on a table without the reverse edge, and the handler
  tells the user "Liked" instead of a match or a failure. In the same way the matches of a
  user with a match come back as the empty list, and the candidate selection comes back as
  \<^verbatim>\<open>None\<close> although a candidate exists.
\<close>

theorem storage_failure_looks_like_no_match:
  "check_match True (snd (add_like False one_way_like 1 2)) 1 2 =
     check_match False (snd (add_like False two_profiles 1 2)) 1 2 \<and>
   fst (handle_callback_like False True False one_way_like 1 2) = Liked \<and>
   fst (handle_callback_like False False False one_way_like 1 2) = Its_a_match \<and>
   get_user_matches False (snd (add_like False one_way_like 1 2)) 1 = [profile2] \<and>
   get_user_matches True (snd (add_like False one_way_like 1 2)) 1 = [] \<and>
   get_users_who_liked_me False one_way_like 1 = [profile2] \<and>
   get_users_who_liked_me True one_way_like 1 = [] \<and>
   get_random_user False two_profiles 0 1 True = Some profile2 \<and>
   get_random_user True two_profiles 0 1 True = None"
  by (simp add: check_match_def add_like_def handle_callback_like_def save_match_def
      get_user_matches_def get_users_who_liked_me_def get_random_user_def random_row_def
      insert_or_ignore_def one_way_like_def two_profiles_def profile_ids)

text \<open>
  C9, amended. A write that raises is reported as \<^verbatim>\<open>False\<close>, where success is
  \<^verbatim>\<open>True\<close>, and leaves the tables as they were; the like button answers with a failure
  when its \<open>add_like\<close> raises. A read that raises is caught and answers with the value of
  "nothing there": \<^verbatim>\<open>False\<close>, the empty list or \<^verbatim>\<open>None\<close>.
\<close>

theorem storage_failure_outcomes:
  "add_like True d a b = (False, d) \<and> fst (add_like False d a b) \<and>
   save_user True d a nm ag dp bi ph = (False, d) \<and> fst (save_user False d a nm ag dp bi ph) \<and>
   save_match True d a b = (False, d) \<and> fst (save_match False d a b) \<and>
   block_user True d a b = (False, d) \<and> fst (block_user False d a b) \<and>
   handle_callback_like True c s d a b = (Failed_to_save_like, d) \<and>
   fst (handle_callback_like False c s d a b) \<noteq> Failed_to_save_like \<and>
   check_match True d a b = False \<and>
   is_blocked True d a b = False \<and>
   get_user_matches True d a = [] \<and>
   get_users_who_liked_me True d a = [] \<and>
   get_random_user True d rnd a eb = None \<and>
   get_users_with_filters True d rnd a mn mx dpt = None"
  by (simp add: add_like_def save_user_def save_match_def block_user_def
      handle_callback_like_def check_match_def is_blocked_def get_user_matches_def
      get_users_who_liked_me_def get_random_user_def get_users_with_filters_def)

section \<open>The rate limiter\<close>

lemma is_allowed_banned:
  "banned rl uid = Some until \<Longrightarrow> now < until \<Longrightarrow>
   is_allowed rl now uid m w b = ((False, Try_again_in (int_of_float (until - now))), rl)"
  by (simp add: is_allowed_def)

lemma is_allowed_not_banned:
  "banned rl uid = None \<or> (\<exists>until. banned rl uid = Some until \<and> until \<le> now) \<Longrightarrow>
   is_allowed rl now uid m w b =
     (let recent = filter (\<lambda>t. now - real_of_int w < t) (requests_of rl uid) in
      if m \<le> int (length recent)
      then ((False, Please_wait b),
            rl\<lparr>requests := (requests rl)(uid \<mapsto> recent),
               banned := (banned rl)(uid \<mapsto> now + real_of_int b)\<rparr>)
      else ((True, No_reason),
            rl\<lparr>requests := (requests rl)(uid \<mapsto> recent @ [now]),
               banned := (banned rl)(uid := None)\<rparr>))"
  by (auto simp: is_allowed_def is_allowed_window_def Let_def requests_of_def fun_upd_idem
      split: option.splits)

lemma three_then_ban_then_free:
  assumes "t1 \<le> t2" "t2 \<le> t3" "t3 \<le> t4" "t4 - 60 < t1" "t4 + 300 \<le> t5"
  shows "fst (is_allowed_calls new_rate_limiter 3 60 300
            [(u, t1), (u, t2), (u, t3), (u, t4), (u, t5)]) =
         [(True, No_reason), (True, No_reason), (True, No_reason), (False, Please_wait 300),
          (True, No_reason)]"
proof -
  have c2: "t2 - 60 < t1" and c3: "t3 - 60 < t1" "t3 - 60 < t2"
    and c4: "t4 - 60 < t1" "t4 - 60 < t2" "t4 - 60 < t3"
    and c5: "\<not> t5 - 60 < t1" "\<not> t5 - 60 < t2" "\<not> t5 - 60 < t3" "\<not> t5 < t4 + 300"
    using assms by linarith+
  show ?thesis
    by (simp add: is_allowed_def is_allowed_window_def requests_of_def new_rate_limiter_def
        Let_def c2 c3 c4 c5)
qed

text \<open>
  C6, as stated, fails: the claim has every call prune the old timestamps before it looks
  at the ban. With one request allowed per minute, user 7 is allowed at time 0 and banned
  at time 10. The call at time 100 is refused because of the ban, and the stored list
  still holds the timestamp 0, which is older than 100 - 60.
\<close>

theorem banned_call_prunes_nothing:
  "fst (is_allowed_calls new_rate_limiter 1 60 300 [(7, 0), (7, 10), (7, 100)]) =
     [(True, No_reason), (False, Please_wait 300), (False, Try_again_in 210)] \<and>
   requests_of (snd (is_allowed_calls new_rate_limiter 1 60 300 [(7, 0), (7, 10), (7, 100)])) 7 = [0] \<and>
   (0 :: real) < 100 - 60"
  by (simp add: is_allowed_def is_allowed_window_def requests_of_def new_rate_limiter_def
      Let_def int_of_float_def)


text \<open>
  C6, amended. If the user is banned and the ban has not ended, the call is refused with
  the whole seconds that remain, and nothing the limiter stores changes. Otherwise a ban
  that has ended is removed, only the timestamps later than \<open>now - time_window\<close> are
  kept, and then: if at least \<open>max_requests\<close> of them remain, the user is banned until
  \<open>now + ban_duration\<close> and the call is refused; if not, \<open>now\<close> is appended and the
  call is allowed. In particular, with 3 requests per 60 seconds and a ban of 300 seconds,
  on a new limiter three calls are allowed, a fourth within 60 seconds of the first is
  refused, and a call 300 seconds or more after the fourth is allowed.
\<close>

theorem is_allowed_behaviour:
  "(banned rl uid = Some until \<and> now < until \<longrightarrow>
      is_allowed rl now uid m w b = ((False, Try_again_in (int_of_float (until - now))), rl)) \<and>
   (banned rl uid = None \<or> (\<exists>e. banned rl uid = Some e \<and> e \<le> now) \<longrightarrow>
      is_allowed rl now uid m w b =
        (let recent = filter (\<lambda>t. now - real_of_int w < t) (requests_of rl uid) in
         if m \<le> int (length recent)
         then ((False, Please_wait b),
               rl\<lparr>requests := (requests rl)(uid \<mapsto> recent),
                  banned := (banned rl)(uid \<mapsto> now + real_of_int b)\<rparr>)
         else ((True, No_reason),
               rl\<lparr>requests := (requests rl)(uid \<mapsto> recent @ [now]),
                  banned := (banned rl)(uid := None)\<rparr>))) \<and>
   (t1 \<le> t2 \<and> t2 \<le> t3 \<and> t3 \<le> t4 \<and> t4 - 60 < t1 \<and> t4 + 300 \<le> t5 \<longrightarrow>
      fst (is_allowed_calls new_rate_limiter 3 60 300
             [(u, t1), (u, t2), (u, t3), (u, t4), (u, t5)]) =
      [(True, No_reason), (True, No_reason), (True, No_reason), (False, Please_wait 300),
       (True, No_reason)])"
  using is_allowed_banned [of rl uid until now m w b] is_allowed_not_banned [of rl uid now m w b]
    three_then_ban_then_free [of t1 t2 t3 t4 t5 u]
  by blast

lemma after_four_calls_eq:
  "after_four_calls = \<lparr>requests = [7 \<mapsto> [0, 1, 2]], banned = [7 \<mapsto> 303]\<rparr>"
  by (simp add: after_four_calls_def is_allowed_def is_allowed_window_def requests_of_def
      new_rate_limiter_def Let_def)

theorem is_allowed_behaviour_witness:
  "is_allowed after_four_calls 100 7 3 60 300 = ((False, Try_again_in 203), after_four_calls) \<and>
   is_allowed after_four_calls 303 7 3 60 300 =
     ((True, No_reason), \<lparr>requests = [7 \<mapsto> [303]], banned = Map.empty\<rparr>) \<and>
   fst (is_allowed_calls new_rate_limiter 3 60 300 [(7, 0), (7, 1), (7, 2), (7, 3), (7, 303)]) =
     [(True, No_reason), (True, No_reason), (True, No_reason), (False, Please_wait 300),
      (True, No_reason)]"
proof -
  have b: "banned after_four_calls 7 = Some 303" and r: "requests_of after_four_calls 7 = [0, 1, 2]"
    by (simp_all add: after_four_calls_eq requests_of_def)
  have 1: "is_allowed after_four_calls 100 7 3 60 300 =
      ((False, Try_again_in 203), after_four_calls)"
    using is_allowed_behaviour [of after_four_calls 7 303 100 3 60 300] b
    by (simp add: int_of_float_def)
  have 2: "is_allowed after_four_calls 303 7 3 60 300 =
      ((True, No_reason), \<lparr>requests = [7 \<mapsto> [303]], banned = Map.empty\<rparr>)"
    using is_allowed_behaviour [of after_four_calls 7 303 303 3 60 300] b r
    by (simp add: after_four_calls_eq)
  have 3: "fst (is_allowed_calls new_rate_limiter 3 60 300
        [(7, 0), (7, 1), (7, 2), (7, 3), (7, 303)]) =
      [(True, No_reason), (True, No_reason), (True, No_reason), (False, Please_wait 300),
       (True, No_reason)]"
    using is_allowed_behaviour [where ?t1.0 = 0 and ?t2.0 = 1 and ?t3.0 = 2 and ?t4.0 = 3
        and ?t5.0 = 303 and u = 7]
    by simp
  from 1 2 3 show ?thesis by simp
qed

section \<open>The size of the request list\<close>

lemma is_allowed_denied_subseq:
  "\<not> fst (fst (is_allowed rl now uid m w b)) \<Longrightarrow>
   subseq (requests_of (snd (is_allowed rl now uid m w b)) v) (requests_of rl v)"
  by (auto simp: is_allowed_def is_allowed_window_def Let_def requests_of_def
      split: option.splits if_splits)

lemma is_allowed_bound:
  assumes "0 \<le> m" and "\<And>v. int (length (requests_of rl v)) \<le> m"
  shows "int (length (requests_of (snd (is_allowed rl now uid m w b)) v)) \<le> m"
proof -
  have f: "int (length (filter P (requests_of rl uid))) \<le> m" for P
    using assms(2) [of uid] length_filter_le [of P "requests_of rl uid"] by linarith
  have w: "int (length (requests_of (snd (is_allowed_window rl' now uid m w b)) v)) \<le> m"
    if "requests rl' = requests rl" for rl'
    using assms(2) [of v] f that
    by (auto simp: is_allowed_window_def Let_def requests_of_def)
  show ?thesis
    using w assms(2) [of v]
    by (auto simp: is_allowed_def split: option.splits)
qed

lemma snd_is_allowed_calls_Cons:
  "snd (is_allowed_calls rl m w b ((uid, now) # calls)) =
     snd (is_allowed_calls (snd (is_allowed rl now uid m w b)) m w b calls)"
  by (simp split: prod.splits)

lemma is_allowed_calls_bound:
  assumes "0 \<le> m"
  shows "(\<And>v. int (length (requests_of rl v)) \<le> m) \<Longrightarrow>
         int (length (requests_of (snd (is_allowed_calls rl m w b calls)) v)) \<le> m"
proof (induction calls arbitrary: rl)
  case Nil
  then show ?case by simp
next
  case (Cons c calls)
  obtain uid now where c: "c = (uid, now)" by (cases c)
  have "int (length (requests_of (snd (is_allowed rl now uid m w b)) v')) \<le> m" for v'
    using assms Cons.prems by (rule is_allowed_bound)
  then have "int (length (requests_of
      (snd (is_allowed_calls (snd (is_allowed rl now uid m w b)) m w b calls)) v)) \<le> m"
    by (rule Cons.IH)
  then show ?case unfolding c snd_is_allowed_calls_Cons .
qed

text \<open>
  C10. With \<open>max_requests\<close> not negative: a refused call of \<open>is_allowed\<close>, whether
  refused for a ban or for the limit, appends nothing: the list it leaves for any user is
  a subsequence of the list it found. And after any list of calls on a new limiter, with
  one configuration, no user's stored list is longer than \<open>max_requests\<close>.
\<close>

theorem denied_call_appends_nothing:
  assumes "0 \<le> m"
  shows "(\<not> fst (fst (is_allowed rl now uid m w b)) \<longrightarrow>
            subseq (requests_of (snd (is_allowed rl now uid m w b)) v) (requests_of rl v)) \<and>
         int (length (requests_of (snd (is_allowed_calls new_rate_limiter m w b calls)) v)) \<le> m"
proof -
  have "int (length (requests_of new_rate_limiter v')) \<le> m" for v'
    using assms by (simp add: requests_of_def new_rate_limiter_def)
  then have "int (length (requests_of (snd (is_allowed_calls new_rate_limiter m w b calls)) v)) \<le> m"
    using is_allowed_calls_bound [OF assms] by blast
  then show ?thesis using is_allowed_denied_subseq by blast
qed

theorem denied_call_appends_nothing_witness:
  "\<not> fst (fst (is_allowed after_four_calls 100 7 3 60 300)) \<and>
   subseq (requests_of (snd (is_allowed after_four_calls 100 7 3 60 300)) 7)
     (requests_of after_four_calls 7) \<and>
   \<not> fst (fst (is_allowed \<lparr>requests = [7 \<mapsto> [0, 1, 2]], banned = Map.empty\<rparr> 3 7 3 60 300)) \<and>
   subseq (requests_of
       (snd (is_allowed \<lparr>requests = [7 \<mapsto> [0, 1, 2]], banned = Map.empty\<rparr> 3 7 3 60 300)) 7)
     (requests_of \<lparr>requests = [7 \<mapsto> [0, 1, 2]], banned = Map.empty\<rparr> 7) \<and>
   int (length (requests_of
       (snd (is_allowed_calls new_rate_limiter 3 60 300
          [(7, 0), (7, 1), (7, 2), (7, 3), (7, 100)])) 7)) \<le> 3"
proof -
  have m: "(0 :: int) \<le> 3" by simp
  have d1: "\<not> fst (fst (is_allowed after_four_calls 100 7 3 60 300))"
    by (simp add: after_four_calls_eq is_allowed_def)
  have d2: "\<not> fst (fst (is_allowed \<lparr>requests = [7 \<mapsto> [0, 1, 2]], banned = Map.empty\<rparr>
      3 7 3 60 300))"
    by (simp add: is_allowed_def is_allowed_window_def requests_of_def Let_def)
  show ?thesis
    using d1 d2
      denied_call_appends_nothing [OF m, where rl = after_four_calls and now = 100 and uid = 7
        and w = 60 and b = 300 and v = 7
        and calls = "[(7, 0), (7, 1), (7, 2), (7, 3), (7, 100)]"]
      denied_call_appends_nothing [OF m,
        where rl = "\<lparr>requests = [7 \<mapsto> [0, 1, 2]], banned = Map.empty\<rparr>" and now = 3
        and uid = 7 and w = 60 and b = 300 and v = 7 and calls = "[]"]
    by blast
qed

section \<open>Registration input\<close>

lemmas text_eval = validate_age_def py_int_def py_strip_def is_space_def c_space_def ascii_def
  is_digit_def digit_value_def int_literal_def validate_bio_def validate_text_length_def

lemma py_strip_padded:
  assumes "\<not> is_space c" and "0 < n"
  shows "py_strip (replicate n c @ [32]) = replicate n c"
proof -
  from assms(2) obtain m where n: "n = Suc m" by (cases n) auto
  have 1: "dropWhile is_space (replicate n c @ [32]) = replicate n c @ [32]"
    using assms(1) by (simp add: n)
  have 2: "dropWhile is_space (replicate n c) = replicate n c"
    using assms(1) by (simp add: n)
  have 3: "is_space 32" by (simp add: is_space_def)
  show ?thesis
    unfolding py_strip_def 1 using assms(1) by (simp add: 2 3)
qed

lemma validate_age_valid:
  "fst (validate_age dec s) \<longleftrightarrow> (\<exists>a. py_int dec (py_strip s) = Some a \<and> 16 \<le> a \<and> a \<le> 100)"
  by (auto simp: validate_age_def split: option.splits)

lemma validate_age_result:
  "validate_age dec s = (ok, r) \<Longrightarrow>
     (ok \<longrightarrow> (\<exists>a. r = Some a \<and> py_int dec (py_strip s) = Some a \<and> 16 \<le> a \<and> a \<le> 100)) \<and>
     (\<not> ok \<longrightarrow> r = None)"
  by (auto simp: validate_age_def split: option.splits if_splits)

lemma validate_bio_iff:
  "validate_bio t \<longleftrightarrow> t \<noteq> [] \<and> 10 \<le> length (py_strip t) \<and> length (py_strip t) \<le> 500"
  by (auto simp: validate_bio_def validate_text_length_def)

lemma rejected_age_no_write:
  assumes "step ud = ''age''" and "\<not> fst (validate_age dec (text_of (msg_text msg)))"
  shows "snd (handle_registration dec r mb d ud uid msg) = (d, ud) \<and>
         fst (handle_registration dec r mb d ud uid msg) \<in> {Invalid_age, No_reply}"
  using assms by (auto simp: handle_registration_def split: prod.splits bool.splits)

lemma rejected_bio_no_write:
  assumes "step ud = ''bio''" and "\<not> validate_bio (text_of (msg_text msg))"
  shows "snd (handle_registration dec r mb d ud uid msg) = (d, ud) \<and>
         fst (handle_registration dec r mb d ud uid msg) \<in> {Invalid_bio, No_reply}"
  using assms by (auto simp: handle_registration_def)

lemma handle_registration_bio_checked:
  assumes "bio_checked ud"
  shows "bio_checked (snd (snd (handle_registration dec r mb d ud uid msg)))"
  using assms
  by (auto simp: handle_registration_def bio_checked_def cleared_def validate_bio_iff
      save_user_def split: prod.splits bool.splits option.splits)

lemma length_py_strip: "length (py_strip t) \<le> length t"
proof -
  have "length (py_strip t) \<le> length (dropWhile is_space t)"
    unfolding py_strip_def by (simp add: length_dropWhile_le le_trans [OF length_dropWhile_le])
  also have "\<dots> \<le> length t" by (rule length_dropWhile_le)
  finally show ?thesis .
qed

lemma handle_registration_no_photo:
  assumes "\<not> (step ud = ''photo'' \<and> msg_photo msg \<noteq> None)"
  shows "fst (snd (handle_registration dec r mb d ud uid msg)) = d"
proof -
  obtain ok a where va: "validate_age dec (text_of (msg_text msg)) = (ok, a)" by fastforce
  show ?thesis
  proof (cases "step ud = ''photo''")
    case True
    with assms have "msg_photo msg = None" by simp
    with True show ?thesis by (simp add: handle_registration_def)
  next
    case False
    then show ?thesis by (cases ok) (simp_all add: handle_registration_def va)
  qed
qed

lemma handle_registration_photo:
  assumes "step ud = ''photo''" and "msg_photo msg \<noteq> None"
  shows "handle_registration dec r mb d ud uid msg =
     (if \<not> (truthy (ud_name ud) \<and> truthy (ud_age ud) \<and> truthy (ud_department ud) \<and>
             truthy (ud_bio ud))
      then (Data_incomplete, d, cleared)
      else
        (case validate_age dec (text_of (ud_age ud)) of
           (False, _) \<Rightarrow> (Invalid_age_start_again, d, cleared)
         | (True, None) \<Rightarrow> (Failed_to_save_profile, d, ud)
         | (True, Some ag) \<Rightarrow>
             (case save_user r d uid (text_of (ud_name ud)) ag
                     (text_of (ud_department ud)) (text_of (ud_bio ud))
                     (text_of (msg_photo msg)) of
                (True, d1) \<Rightarrow> (Profile_created, d1, cleared)
              | (False, d1) \<Rightarrow> (Failed_to_save_profile, d1, ud))))"
  using assms by (simp add: handle_registration_def)

lemma handle_registration_writes:
  assumes "bio_checked ud"
  shows "fst (snd (handle_registration dec r mb d ud uid msg)) = d \<or>
         (\<exists>nm ag dp bi ph.
            fst (snd (handle_registration dec r mb d ud uid msg)) =
              snd (save_user False d uid nm ag dp bi ph) \<and>
            16 \<le> ag \<and> ag \<le> 100 \<and> 10 \<le> length bi \<and> length bi \<le> 500)"
proof (cases "step ud = ''photo'' \<and> msg_photo msg \<noteq> None")
  case False
  then show ?thesis by (simp add: handle_registration_no_photo)
next
  case photo: True
  note eq = handle_registration_photo [of ud msg dec r mb d uid]
  show ?thesis
  proof (cases "truthy (ud_name ud) \<and> truthy (ud_age ud) \<and> truthy (ud_department ud) \<and>
      truthy (ud_bio ud)")
    case False
    with photo eq show ?thesis by simp
  next
    case all: True
    then obtain bi where bi: "ud_bio ud = Some bi"
      by (cases "ud_bio ud") (simp_all add: truthy_def)
    with assms have len: "10 \<le> length bi" "length bi \<le> 500" by (simp_all add: bio_checked_def)
    obtain ok a where va: "validate_age dec (text_of (ud_age ud)) = (ok, a)" by fastforce
    show ?thesis
    proof (cases ok)
      case False
      with va photo all eq show ?thesis by simp
    next
      case ok: True
      with va validate_age_result obtain ag where ag: "a = Some ag" "16 \<le> ag" "ag \<le> 100"
        by blast
      show ?thesis
      proof (cases r)
        case True
        with va ok ag(1) photo all eq show ?thesis by (simp add: save_user_def)
      next
        case False
        with va ok ag(1) photo all eq bi
        have "fst (snd (handle_registration dec r mb d ud uid msg)) =
            snd (save_user False d uid (text_of (ud_name ud)) ag (text_of (ud_department ud)) bi
              (text_of (msg_photo msg)))"
          by (simp add: save_user_def text_of_def)
        with ag len show ?thesis by blast
      qed
    qed
  qed
qed

lemma validate_bio_stripped:
  "py_strip t = t \<Longrightarrow> validate_bio t \<longleftrightarrow> 10 \<le> length t \<and> length t \<le> 500"
  by (auto simp: validate_bio_iff)

text \<open>
  C8, as stated, fails for the bio. A text of 501 characters, 500 letters and a blank at
  the end, is accepted although its length is outside 10 to 500, and a text of ten
  characters, nine digits and a blank at the end, is rejected.
\<close>

theorem padded_bio_judged_by_stripped_length:
  "length padded_long_bio = 501 \<and> validate_bio padded_long_bio \<and>
   length padded_short_bio = 10 \<and> \<not> validate_bio padded_short_bio"
proof -
  have "py_strip padded_long_bio = replicate 500 97"
    unfolding padded_long_bio_def using py_strip_padded [of 97 500]
    by (simp add: is_space_def ascii_def)
  then have "validate_bio padded_long_bio"
    by (simp add: validate_bio_def validate_text_length_def) (simp add: padded_long_bio_def)
  moreover have "length padded_long_bio = 501"
    by (simp add: padded_long_bio_def ascii_def)
  moreover have "length padded_short_bio = 10 \<and> \<not> validate_bio padded_short_bio"
    by (simp add: padded_short_bio_def text_eval)
  ultimately show ?thesis by simp
qed

text \<open>
  C8, amended. An age text of 15 is rejected and 16 is accepted, as are 100 and not 101:
  an age text is valid exactly when it reads as an integer from 16 to 100. A bio is
  measured with the white space at its ends removed, the form in which it is stored: it is
  valid exactly when it is not empty and has from 10 to 500 characters in that form. So a
  bio of nine characters is rejected, as is every text shorter than 10, a bio of ten
  characters without white space at its ends is accepted, and for a text without white
  space at its ends the bounds are those of its own length. A rejected age or bio leaves
  the tables and the user data as they were. Whatever the message, the registration step
  leaves the tables alone or stores one profile, whose age is from 16 to 100 and whose bio
  has from 10 to 500 characters.
\<close>

theorem registration_validation:
  "validate_age dec (ascii ''15'') = (False, None) \<and>
   validate_age dec (ascii ''16'') = (True, Some 16) \<and>
   validate_age dec (ascii ''100'') = (True, Some 100) \<and>
   validate_age dec (ascii ''101'') = (False, None) \<and>
   (fst (validate_age dec s) \<longleftrightarrow>
      (\<exists>a. py_int dec (py_strip s) = Some a \<and> 16 \<le> a \<and> a \<le> 100)) \<and>
   \<not> validate_bio (ascii ''123456789'') \<and> validate_bio (ascii ''1234567890'') \<and>
   (validate_bio t \<longleftrightarrow> t \<noteq> [] \<and> 10 \<le> length (py_strip t) \<and> length (py_strip t) \<le> 500) \<and>
   (length t < 10 \<longrightarrow> \<not> validate_bio t) \<and>
   (py_strip t = t \<longrightarrow> (validate_bio t \<longleftrightarrow> 10 \<le> length t \<and> length t \<le> 500)) \<and>
   (step ud = ''age'' \<and> \<not> fst (validate_age dec (text_of (msg_text msg))) \<longrightarrow>
      snd (handle_registration dec r mb d ud uid msg) = (d, ud)) \<and>
   (step ud = ''bio'' \<and> \<not> validate_bio (text_of (msg_text msg)) \<longrightarrow>
      snd (handle_registration dec r mb d ud uid msg) = (d, ud)) \<and>
   (bio_checked ud \<longrightarrow>
      bio_checked (snd (snd (handle_registration dec r mb d ud uid msg))) \<and>
      (fst (snd (handle_registration dec r mb d ud uid msg)) = d \<or>
       (\<exists>nm ag dp bi ph.
          fst (snd (handle_registration dec r mb d ud uid msg)) =
            snd (save_user False d uid nm ag dp bi ph) \<and>
          16 \<le> ag \<and> ag \<le> 100 \<and> 10 \<le> length bi \<and> length bi \<le> 500)))"
proof -
  have a: "validate_age dec (ascii ''15'') = (False, None)"
    "validate_age dec (ascii ''16'') = (True, Some 16)"
    "validate_age dec (ascii ''100'') = (True, Some 100)"
    "validate_age dec (ascii ''101'') = (False, None)"
    by (simp_all add: text_eval)
  have b: "\<not> validate_bio (ascii ''123456789'')" "validate_bio (ascii ''1234567890'')"
    by (simp_all add: text_eval)
  have c: "length t < 10 \<longrightarrow> \<not> validate_bio t"
    using length_py_strip [of t] by (auto simp: validate_bio_iff)
  show ?thesis
    using a b c validate_age_valid [of dec s] validate_bio_iff [of t] validate_bio_stripped [of t]
      rejected_age_no_write [of ud dec msg r mb d uid]
      rejected_bio_no_write [of ud msg dec r mb d uid]
      handle_registration_bio_checked [of ud dec r mb d uid msg]
      handle_registration_writes [of ud dec r mb d uid msg]
    by blast
qed

theorem registration_validation_witness:
  "handle_registration arabic_indic False [] no_rows (cleared\<lparr>step := ''age''\<rparr>) 1
      \<lparr>msg_text = Some (ascii ''15''), msg_photo = None\<rparr> =
     (Invalid_age, no_rows, cleared\<lparr>step := ''age''\<rparr>) \<and>
   handle_registration arabic_indic False [] no_rows (cleared\<lparr>step := ''bio''\<rparr>) 1
      \<lparr>msg_text = Some (ascii ''too short''), msg_photo = None\<rparr> =
     (Invalid_bio, no_rows, cleared\<lparr>step := ''bio''\<rparr>) \<and>
   length (ascii ''too short'') < 10 \<and> \<not> validate_bio (ascii ''too short'') \<and>
   py_strip (ascii ''1234567890'') = ascii ''1234567890'' \<and>
   validate_bio (ascii ''1234567890'') \<and>
   bio_checked ready_for_photo \<and>
   bio_checked (snd (snd (handle_registration arabic_indic False [] no_rows ready_for_photo 1
      \<lparr>msg_text = None, msg_photo = Some (ascii ''p1'')\<rparr>))) \<and>
   handle_registration arabic_indic False [] no_rows ready_for_photo 1
      \<lparr>msg_text = None, msg_photo = Some (ascii ''p1'')\<rparr> =
     (Profile_created, no_rows\<lparr>users := [profile1]\<rparr>, cleared)"
proof -
  let ?age_msg = "\<lparr>msg_text = Some (ascii ''15''), msg_photo = None\<rparr>"
  let ?bio_msg = "\<lparr>msg_text = Some (ascii ''too short''), msg_photo = None\<rparr>"
  let ?photo_msg = "\<lparr>msg_text = None, msg_photo = Some (ascii ''p1'')\<rparr>"
  have age: "step (cleared\<lparr>step := ''age''\<rparr>) = ''age'' \<and>
      \<not> fst (validate_age arabic_indic (text_of (msg_text ?age_msg)))"
    by (simp add: cleared_def text_of_def text_eval)
  have age_reply: "fst (handle_registration arabic_indic False [] no_rows
      (cleared\<lparr>step := ''age''\<rparr>) 1 ?age_msg) = Invalid_age"
    by (simp add: handle_registration_def cleared_def truthy_def text_of_def text_eval)
  have bio: "step (cleared\<lparr>step := ''bio''\<rparr>) = ''bio'' \<and>
      \<not> validate_bio (text_of (msg_text ?bio_msg))"
    by (simp add: cleared_def text_of_def text_eval)
  have bio_reply: "fst (handle_registration arabic_indic False [] no_rows
      (cleared\<lparr>step := ''bio''\<rparr>) 1 ?bio_msg) = Invalid_bio"
    by (simp add: handle_registration_def cleared_def truthy_def text_of_def text_eval)
  have short: "length (ascii ''too short'') < 10"
    by (simp add: ascii_def)
  have stripped: "py_strip (ascii ''1234567890'') = ascii ''1234567890''"
    by (simp add: text_eval)
  have len: "10 \<le> length (ascii ''1234567890'') \<and> length (ascii ''1234567890'') \<le> 500"
    by (simp add: ascii_def)
  have ready: "bio_checked ready_for_photo"
    by (simp add: bio_checked_def ready_for_photo_def ascii_def)
  have photo: "handle_registration arabic_indic False [] no_rows ready_for_photo 1 ?photo_msg =
     (Profile_created, no_rows\<lparr>users := [profile1]\<rparr>, cleared)"
    by (simp add: handle_registration_def ready_for_photo_def truthy_def text_of_def
        save_user_def no_rows_def profile1_def text_eval)
  have 1: "snd (handle_registration arabic_indic False [] no_rows (cleared\<lparr>step := ''age''\<rparr>) 1
      ?age_msg) = (no_rows, cleared\<lparr>step := ''age''\<rparr>)"
    using registration_validation [where dec = arabic_indic
        and ud = "cleared\<lparr>step := ''age''\<rparr>" and msg = ?age_msg and r = False and mb = "[]"
        and d = no_rows and uid = 1] age
    by blast
  have 2: "snd (handle_registration arabic_indic False [] no_rows (cleared\<lparr>step := ''bio''\<rparr>) 1
      ?bio_msg) = (no_rows, cleared\<lparr>step := ''bio''\<rparr>)"
    using registration_validation [where dec = arabic_indic
        and ud = "cleared\<lparr>step := ''bio''\<rparr>" and msg = ?bio_msg and r = False and mb = "[]"
        and d = no_rows and uid = 1] bio
    by blast
  from 1 age_reply have a: "handle_registration arabic_indic False [] no_rows
      (cleared\<lparr>step := ''age''\<rparr>) 1 ?age_msg =
     (Invalid_age, no_rows, cleared\<lparr>step := ''age''\<rparr>)"
    by (metis prod.collapse)
  from 2 bio_reply have b: "handle_registration arabic_indic False [] no_rows
      (cleared\<lparr>step := ''bio''\<rparr>) 1 ?bio_msg =
     (Invalid_bio, no_rows, cleared\<lparr>step := ''bio''\<rparr>)"
    by (metis prod.collapse)
  have 3: "bio_checked (snd (snd (handle_registration arabic_indic False [] no_rows
      ready_for_photo 1 ?photo_msg)))"
    using registration_validation [where dec = arabic_indic and ud = ready_for_photo
        and msg = ?photo_msg and r = False and mb = "[]" and d = no_rows and uid = 1] ready
    by blast
  have 4: "\<not> validate_bio (ascii ''too short'')"
    using registration_validation [where t = "ascii ''too short''"] short by blast
  have 5: "validate_bio (ascii ''1234567890'')"
    using registration_validation [where t = "ascii ''1234567890''"] stripped len by blast
  from a b short 4 stripped 5 ready 3 photo show ?thesis by blast
qed

end
